theory Spec2Isabelle
  imports Complex_Main "HOL-Library.Log_Nat"
begin

section \<open>Numbers of the host language\<close>

text \<open>
  The decision engine of the judgment tool is a set of pure JavaScript functions over
  numbers and strings. A JavaScript number is an IEEE 754 binary64 value: a finite
  value, one of the two zeros, one of the two infinities, or not-a-number. \<open>Fin r\<close> is the
  finite value \<open>r\<close>, with \<open>Fin 0\<close> the positive zero; \<open>NegZero\<close> is the negative zero. The
  finite doubles are the values \<open>Fin r\<close> that \<open>round_double\<close> leaves unchanged; every
  statement below that is made for all values of the type holds for them in particular.
\<close>

datatype double = Fin rat | NegZero | PlusInf | MinusInf | NaN

definition pow2 :: "int \<Rightarrow> rat" where
  "pow2 n = (if 0 \<le> n then 2 ^ nat n else 1 / 2 ^ nat (- n))"

text \<open>The binary exponent of a positive rational: \<open>pow2 (ilog2 r) \<le> r < pow2 (ilog2 r + 1)\<close>.\<close>

definition ilog2 :: "rat \<Rightarrow> int" where
  "ilog2 r =
     (let (a, b) = quotient_of r; k = bitlen a - bitlen b
      in if pow2 k \<le> r then k else k - 1)"

text \<open>Rounding to the nearest integer, a tie going to the even one.\<close>

definition rne :: "rat \<Rightarrow> int" where
  "rne x =
     (let f = \<lfloor>x\<rfloor>; d = x - of_int f
      in if d < 1 / 2 then f else if 1 / 2 < d then f + 1 else if even f then f else f + 1)"

definition signed_zero :: "bool \<Rightarrow> double" where
  "signed_zero neg = (if neg then NegZero else Fin 0)"

definition signed_inf :: "bool \<Rightarrow> double" where
  "signed_inf neg = (if neg then MinusInf else PlusInf)"

text \<open>
  The double nearest to a rational (round to nearest, ties to even): 53 significant
  bits, the spacing \<open>pow2 (e - 52)\<close> in the binade of exponent \<open>e\<close> and \<open>pow2 (- 1074)\<close> below
  \<open>pow2 (- 1022)\<close> (gradual underflow), infinity when the rounded magnitude reaches
  \<open>pow2 1024\<close>, a zero of the sign of \<open>r\<close> when it rounds to nothing.
\<close>

definition round_double :: "rat \<Rightarrow> double" where
  "round_double r =
     (if r = 0 then Fin 0
      else
        let e = ilog2 \<bar>r\<bar> in
        if 1024 \<le> e then signed_inf (r < 0)
        else
          let q = pow2 (max e (- 1022) - 52); m = rne (r / q) in
          if e = 1023 \<and> \<bar>m\<bar> = 9007199254740992 then signed_inf (r < 0)
          else if m = 0 then signed_zero (r < 0)
          else Fin (of_int m * q))"

text \<open>
  A decimal literal of the source denotes the double nearest to it. An integer literal
  below \<open>2 ^ 53\<close> is a double itself and is written \<open>Fin n\<close>.
\<close>

definition lit :: "rat \<Rightarrow> double" where
  "lit r = round_double r"

definition is_zero :: "double \<Rightarrow> bool" where
  "is_zero x = (x = Fin 0 \<or> x = NegZero)"

definition is_inf :: "double \<Rightarrow> bool" where
  "is_inf x = (x = PlusInf \<or> x = MinusInf)"

fun sign_bit :: "double \<Rightarrow> bool" where
  "sign_bit (Fin r) = (r < 0)"
| "sign_bit NegZero = True"
| "sign_bit PlusInf = False"
| "sign_bit MinusInf = True"
| "sign_bit NaN = False"

fun val :: "double \<Rightarrow> rat" where
  "val (Fin r) = r"
| "val x = 0"

text \<open>The arithmetic operators \<open>*\<close>, \<open>/\<close> and \<open>-\<close>: the exact result, correctly rounded.\<close>

definition js_mul :: "double \<Rightarrow> double \<Rightarrow> double" where
  "js_mul x y =
     (if x = NaN \<or> y = NaN then NaN
      else if is_inf x \<or> is_inf y then
        (if is_zero x \<or> is_zero y then NaN else signed_inf (sign_bit x \<noteq> sign_bit y))
      else
        let p = val x * val y in
        if p = 0 then signed_zero (sign_bit x \<noteq> sign_bit y) else round_double p)"

definition js_div :: "double \<Rightarrow> double \<Rightarrow> double" where
  "js_div x y =
     (if x = NaN \<or> y = NaN then NaN
      else if is_inf x then
        (if is_inf y then NaN else signed_inf (sign_bit x \<noteq> sign_bit y))
      else if is_inf y then signed_zero (sign_bit x \<noteq> sign_bit y)
      else if is_zero y then
        (if is_zero x then NaN else signed_inf (sign_bit x \<noteq> sign_bit y))
      else
        let q = val x / val y in
        if q = 0 then signed_zero (sign_bit x \<noteq> sign_bit y) else round_double q)"

definition js_sub :: "double \<Rightarrow> double \<Rightarrow> double" where
  "js_sub x y =
     (if x = NaN \<or> y = NaN then NaN
      else if is_inf x then (if is_inf y \<and> sign_bit x = sign_bit y then NaN else x)
      else if is_inf y then signed_inf (\<not> sign_bit y)
      else
        let d = val x - val y in
        if d = 0 then (if x = NegZero \<and> y = Fin 0 then NegZero else Fin 0)
        else round_double d)"

text \<open>
  The comparisons \<open><\<close>, \<open><=\<close>, \<open>>\<close> and \<open>>=\<close>: false when an operand is not-a-number,
  the two zeros equal, the infinities at the ends.
\<close>

fun rank :: "double \<Rightarrow> int" where
  "rank MinusInf = - 1"
| "rank PlusInf = 1"
| "rank x = 0"

definition js_lt :: "double \<Rightarrow> double \<Rightarrow> bool" where
  "js_lt x y =
     (x \<noteq> NaN \<and> y \<noteq> NaN \<and> (rank x < rank y \<or> (rank x = rank y \<and> val x < val y)))"

definition js_le :: "double \<Rightarrow> double \<Rightarrow> bool" where
  "js_le x y =
     (x \<noteq> NaN \<and> y \<noteq> NaN \<and> (rank x < rank y \<or> (rank x = rank y \<and> val x \<le> val y)))"

definition js_gt :: "double \<Rightarrow> double \<Rightarrow> bool" where
  "js_gt x y = js_lt y x"

definition js_ge :: "double \<Rightarrow> double \<Rightarrow> bool" where
  "js_ge x y = js_le y x"

text \<open>\<open>!x\<close> on a number holds for the zeros and for not-a-number.\<close>

definition falsy :: "double \<Rightarrow> bool" where
  "falsy x = (is_zero x \<or> x = NaN)"

text \<open>\<open>Math.floor\<close>; the zeros, the infinities and not-a-number are returned as they are.\<close>

fun Math_floor :: "double \<Rightarrow> double" where
  "Math_floor (Fin r) = Fin (of_int \<lfloor>r\<rfloor>)"
| "Math_floor x = x"

text \<open>
  \<open>Math.round\<close> rounds to the nearest integer, a tie going up; a value from -0.5 up to
  the negative zero gives the negative zero.
\<close>

fun Math_round :: "double \<Rightarrow> double" where
  "Math_round (Fin r) = (if - (1 / 2) \<le> r \<and> r < 0 then NegZero else Fin (of_int \<lfloor>r + 1 / 2\<rfloor>))"
| "Math_round x = x"

section \<open>Property lookup on an object literal\<close>

text \<open>
  The result of reading a property of an object literal \<open>{ k1: v1, ... }\<close> with a string key:
  the number stored under an own key, the built-in inherited from \<open>Object.prototype\<close> under
  one of its keys (a function, or the prototype itself for \<open>__proto__\<close>), and \<open>undefined\<close>
  for every other key.
\<close>

datatype js_value = Num double | Inherited string | Undefined

definition Object_prototype_keys :: "string list" where
  "Object_prototype_keys =
     [''constructor'', ''__defineGetter__'', ''__defineSetter__'', ''hasOwnProperty'',
      ''__lookupGetter__'', ''__lookupSetter__'', ''isPrototypeOf'', ''propertyIsEnumerable'',
      ''toString'', ''valueOf'', ''__proto__'', ''toLocaleString'']"

definition get_property :: "(string \<times> double) list \<Rightarrow> string \<Rightarrow> js_value" where
  "get_property own k =
     (case map_of own k of
        Some v \<Rightarrow> Num v
      | None \<Rightarrow> if k \<in> set Object_prototype_keys then Inherited k else Undefined)"

text \<open>The operator \<open>??\<close>: the right operand replaces \<open>undefined\<close> (and \<open>null\<close>) only.\<close>

definition nullish_or :: "js_value \<Rightarrow> js_value \<Rightarrow> js_value" where
  "nullish_or v d = (if v = Undefined then d else v)"

section \<open>Short-horizon scoring\<close>

text \<open>\<open>function calcMarketScore(sentiment) { return { good: 2, normal: 0, bad: -2 }[sentiment] ?? 0; }\<close>\<close>

definition calcMarketScore :: "string \<Rightarrow> js_value" where
  "calcMarketScore sentiment =
     nullish_or
       (get_property [(''good'', Fin 2), (''normal'', Fin 0), (''bad'', Fin (- 2))] sentiment)
       (Num (Fin 0))"

datatype position = Above_high | Below_low | Near_support | Near_resistance | Range

record price_position =
  score :: double
  position :: position

definition calcPricePositionScore :: "double \<Rightarrow> double \<Rightarrow> double \<Rightarrow> price_position" where
  "calcPricePositionScore currentPrice prevHigh prevLow =
     (if js_gt currentPrice prevHigh then \<lparr>score = Fin (- 2), position = Above_high\<rparr>
      else if js_lt currentPrice prevLow then \<lparr>score = Fin (- 3), position = Below_low\<rparr>
      else if js_le currentPrice (js_mul prevLow (lit (101 / 100)))
        then \<lparr>score = Fin 1, position = Near_support\<rparr>
      else if js_ge currentPrice (js_mul prevHigh (lit (99 / 100)))
        then \<lparr>score = Fin (- 1), position = Near_resistance\<rparr>
      else \<lparr>score = Fin 0, position = Range\<rparr>)"

text \<open>
  The local function \<open>round\<close> of \<open>calcStopLoss\<close>, chosen by the market tag:
  \<open>Math.round(v * 100) / 100\<close> for \<open>us\<close>, \<open>Math.floor(v)\<close> for every other tag.
\<close>

definition round_for :: "string \<Rightarrow> double \<Rightarrow> double" where
  "round_for market v =
     (if market = ''us'' then js_div (Math_round (js_mul v (Fin 100))) (Fin 100)
      else Math_floor v)"

definition calcStopLoss :: "double \<Rightarrow> double \<Rightarrow> string \<Rightarrow> double" where
  "calcStopLoss currentPrice prevLow market =
     (if js_gt currentPrice prevLow then round_for market (js_mul prevLow (lit (995 / 1000)))
      else round_for market (js_mul currentPrice (lit (98 / 100))))"

text \<open>
  The results of \<open>calcEntrySignal\<close> and \<open>calcPositionSize\<close> are objects with a tag, a
  display label and a reason text. The tag is kept as a datatype; the reason is kept as a
  constructor naming the rule that produced it (with the numbers the text quotes); the
  label, a constant text for each tag, is left out.
\<close>

datatype signal = Ok | Watch | Ng

datatype entry_reason =
    Focus_too_low
  | Bad_sentiment_low_focus
  | Earnings_within_week
  | Score_good double
  | Score_incomplete double
  | Score_bad double

record entry_signal =
  signal :: signal
  reason :: entry_reason

definition calcEntrySignal :: "double \<Rightarrow> double \<Rightarrow> string \<Rightarrow> entry_signal" where
  "calcEntrySignal totalScore focus sentiment =
     (if js_le focus (Fin 2) then \<lparr>signal = Ng, reason = Focus_too_low\<rparr>
      else if sentiment = ''bad'' \<and> js_lt focus (Fin 4)
        then \<lparr>signal = Ng, reason = Bad_sentiment_low_focus\<rparr>
      else if js_ge totalScore (Fin 3) then \<lparr>signal = Ok, reason = Score_good totalScore\<rparr>
      else if js_ge totalScore (Fin 0)
        then \<lparr>signal = Watch, reason = Score_incomplete totalScore\<rparr>
      else \<lparr>signal = Ng, reason = Score_bad totalScore\<rparr>)"

datatype size_class = Large | Medium | Small | Pass

datatype size_reason =
    All_conditions_met double double double
  | Conditions_met double double double
  | Risk_acceptable double
  | Risk_too_large double

record position_size =
  size_class :: size_class
  size_reason :: size_reason

text \<open>\<open>const riskPercent = (currentPrice - stopLoss) / currentPrice * 100;\<close>\<close>

definition riskPercent :: "double \<Rightarrow> double \<Rightarrow> double" where
  "riskPercent currentPrice stopLoss =
     js_mul (js_div (js_sub currentPrice stopLoss) currentPrice) (Fin 100)"

definition calcPositionSize ::
  "double \<Rightarrow> double \<Rightarrow> double \<Rightarrow> double \<Rightarrow> string \<Rightarrow> position_size" where
  "calcPositionSize score' currentPrice stopLoss focus sentiment =
     (let r = riskPercent currentPrice stopLoss in
      if js_ge score' (Fin 4) \<and> js_le r (Fin 2) \<and> js_ge focus (Fin 4) \<and> sentiment = ''good''
        then \<lparr>size_class = Large, size_reason = All_conditions_met score' r focus\<rparr>
      else if js_ge score' (Fin 2) \<and> js_le r (Fin 3) \<and> js_ge focus (Fin 3)
        then \<lparr>size_class = Medium, size_reason = Conditions_met score' r focus\<rparr>
      else if js_ge score' (Fin 0) \<and> js_le r (Fin 5)
        then \<lparr>size_class = Small, size_reason = Risk_acceptable r\<rparr>
      else \<lparr>size_class = Pass, size_reason = Risk_too_large r\<rparr>)"

text \<open>The order of the sizes: pass, small, medium, large.\<close>

fun size_rank :: "size_class \<Rightarrow> nat" where
  "size_rank Pass = 0"
| "size_rank Small = 1"
| "size_rank Medium = 2"
| "size_rank Large = 3"

section \<open>Mid-horizon functions\<close>

text \<open>
  \<open>calcRR(currentPrice, stopLoss, targetPrice)\<close>: the target price is a number or \<open>null\<close>;
  \<open>!targetPrice\<close> holds for \<open>null\<close>, for the zeros and for not-a-number. The result is a
  number or \<open>null\<close>.
\<close>

definition calcRR :: "double \<Rightarrow> double \<Rightarrow> double option \<Rightarrow> double option" where
  "calcRR currentPrice stopLoss targetPrice =
     (case targetPrice of
        None \<Rightarrow> None
      | Some t \<Rightarrow>
          if falsy t \<or> js_le t currentPrice then None
          else
            let risk = js_sub currentPrice stopLoss; reward = js_sub t currentPrice in
            if js_le risk (Fin 0) then None else Some (js_div reward risk))"

definition calcEntrySignalMid :: "double \<Rightarrow> double \<Rightarrow> string \<Rightarrow> entry_signal" where
  "calcEntrySignalMid totalScore focus earningsProx =
     (if js_le focus (Fin 2) then \<lparr>signal = Ng, reason = Focus_too_low\<rparr>
      else if earningsProx = ''week'' \<and> js_lt totalScore (Fin 5)
        then \<lparr>signal = Watch, reason = Earnings_within_week\<rparr>
      else if js_ge totalScore (Fin 5) then \<lparr>signal = Ok, reason = Score_good totalScore\<rparr>
      else if js_ge totalScore (Fin 1)
        then \<lparr>signal = Watch, reason = Score_incomplete totalScore\<rparr>
      else \<lparr>signal = Ng, reason = Score_bad totalScore\<rparr>)"

section \<open>The critical phase of \<open>fetchStockData\<close>\<close>

text \<open>
  A JavaScript string is a sequence of UTF-16 code units; the error messages of the
  fetchers are Japanese text, so they are kept as lists of code units. \<open>ascii\<close> embeds the
  ASCII parts.
\<close>

type_synonym js_string = "nat list"

definition ascii :: "string \<Rightarrow> js_string" where
  "ascii s = map of_char s"

fun startsWith :: "js_string \<Rightarrow> js_string \<Rightarrow> bool" where
  "startsWith m [] = True"
| "startsWith [] (c # p) = False"
| "startsWith (d # m) (c # p) = (d = c \<and> startsWith m p)"

fun includes_str :: "js_string \<Rightarrow> js_string \<Rightarrow> bool" where
  "includes_str [] s = (s = [])"
| "includes_str (d # m) s = (startsWith (d # m) s \<or> includes_str m s)"

text \<open>\<open>[...new Set(xs)]\<close>: the distinct elements in the order of their first occurrence.\<close>

definition new_Set :: "'a list \<Rightarrow> 'a list" where
  "new_Set xs = foldl (\<lambda>acc x. if x \<in> set acc then acc else acc @ [x]) [] xs"

text \<open>
  \<open>a || b\<close> on values that are a string or \<open>undefined\<close>: the left operand when it is
  truthy (a non-empty string), the right operand otherwise.
\<close>

definition truthy :: "js_string option \<Rightarrow> bool" where
  "truthy v = (case v of None \<Rightarrow> False | Some s \<Rightarrow> s \<noteq> [])"

definition or_else :: "js_string option \<Rightarrow> js_string option \<Rightarrow> js_string option" where
  "or_else a b = (if truthy a then a else b)"

definition index0 :: "'a list \<Rightarrow> 'a option" where
  "index0 xs = (case xs of [] \<Rightarrow> None | x # _ \<Rightarrow> Some x)"

text \<open>The marker of a generic message, three code units (in Latin letters: "shudou de", by hand).\<close>

definition generic_marker :: js_string where
  "generic_marker = [0x624B, 0x52D5, 0x3067]"

definition isGeneric :: "js_string \<Rightarrow> bool" where
  "isGeneric m = includes_str m generic_marker"

definition isApiError :: "js_string \<Rightarrow> bool" where
  "isApiError m = (startsWith m (ascii ''[AV]'') \<or> startsWith m (ascii ''[TD]''))"

text \<open>The message of last resort: data could not be fetched, enter the prices by hand.\<close>

definition default_message :: js_string where
  "default_message =
     [0x30C7, 0x30FC, 0x30BF, 0x53D6, 0x5F97, 0x3067, 0x304D, 0x307E, 0x305B, 0x3093,
      0x3067, 0x3057, 0x305F, 0x3002, 0x624B, 0x52D5, 0x3067, 0x4FA1, 0x683C, 0x3092,
      0x5165, 0x529B, 0x3057, 0x3066, 0x304F, 0x3060, 0x3055, 0x3044, 0x3002]"

text \<open>
  The \<open>catch\<close> block of step 1, given the messages of \<open>e.errors\<close> of the
  \<open>AggregateError\<close> in the order of the attempts: it yields the message of the one error
  that \<open>fetchStockData\<close> throws. (Every attempt is the promise of an \<open>async\<close> function, so
  the \<open>try\<close> block fails through \<open>Promise.any\<close> only, with an \<open>AggregateError\<close>.)
\<close>

definition best_message :: "js_string list \<Rightarrow> js_string option" where
  "best_message msgs =
     or_else (find (\<lambda>m. \<not> isGeneric m \<and> \<not> isApiError m) msgs)
       (or_else (find (\<lambda>m. \<not> isGeneric m) msgs) (index0 msgs))"

definition aggregate_message :: "js_string list \<Rightarrow> js_string" where
  "aggregate_message errors =
     (let msgs = new_Set errors; best = best_message msgs in
      case or_else best (Some default_message) of Some m \<Rightarrow> m | None \<Rightarrow> default_message)"

text \<open>
  The attempts of step 1: the proxy path always, Alpha Vantage put in front of it
  (\<open>unshift\<close>) when its key is stored, Twelve Data put in front of both when its key is
  stored. The two flags say whether the stored key is truthy.
\<close>

definition attempts :: "bool \<Rightarrow> bool \<Rightarrow> 'a \<Rightarrow> 'a \<Rightarrow> 'a \<Rightarrow> 'a list" where
  "attempts tdKey avKey td av proxy =
     (let a0 = [proxy];
          a1 = (if avKey then av # a0 else a0);
          a2 = (if tdKey then td # a1 else a1)
      in a2)"

text \<open>
  An attempt that has settled is rejected with a message (\<open>Inl\<close>) or fulfilled with a
  snapshot (\<open>Inr\<close>). \<open>Promise.any\<close> rejects only when every attempt is rejected, with the
  errors in the order of the attempts; which snapshot it resolves with otherwise depends on
  the order in which the attempts settle and is not modelled.
\<close>

fun all_rejected :: "(js_string + 'a) list \<Rightarrow> js_string list option" where
  "all_rejected [] = Some []"
| "all_rejected (Inl m # rest) = map_option (\<lambda>ms. m # ms) (all_rejected rest)"
| "all_rejected (Inr v # rest) = None"

text \<open>
  \<open>fetchFromProxy\<close> races nine direct and relayed requests and replaces whatever they
  failed with by one fixed message (\<open>catch (_) { throw new Error(...) }\<close>): retrieval via
  the proxies failed, setting a Twelve Data key gives stable retrieval. Its argument is the
  outcome of the inner race: \<open>None\<close> when all nine requests failed, the snapshot otherwise.
\<close>

definition msg_proxy_failed :: js_string where
  "msg_proxy_failed =
     [0x30D7, 0x30ED, 0x30AD, 0x30B7, 0x7D4C, 0x7531, 0x306E, 0x53D6, 0x5F97, 0x306B,
      0x5931, 0x6557, 0x3057, 0x307E, 0x3057, 0x305F, 0x3002] @ ascii ''Twelve Data API'' @
     [0x30AD, 0x30FC, 0x3092, 0x8A2D, 0x5B9A, 0x3059, 0x308B, 0x3068, 0x5B89, 0x5B9A,
      0x3057, 0x3066, 0x53D6, 0x5F97, 0x3067, 0x304D, 0x307E, 0x3059, 0x3002]"

definition fetchFromProxy :: "'a option \<Rightarrow> js_string + 'a" where
  "fetchFromProxy inner = (case inner of None \<Rightarrow> Inl msg_proxy_failed | Some v \<Rightarrow> Inr v)"

text \<open>
  Step 1 of \<open>fetchStockData\<close> when it fails: the message of the error thrown, \<open>None\<close> when
  some attempt is fulfilled. The arguments are the two key flags, the settled outcomes of
  \<open>fetchFromTwelveData\<close> and \<open>fetchFromAlphaVantage\<close>, and the outcome of the inner race of
  \<open>fetchFromProxy\<close>.
\<close>

definition step1_error ::
  "bool \<Rightarrow> bool \<Rightarrow> (js_string + 'a) \<Rightarrow> (js_string + 'a) \<Rightarrow> 'a option \<Rightarrow> js_string option" where
  "step1_error tdKey avKey td av inner =
     map_option aggregate_message (all_rejected (attempts tdKey avKey td av (fetchFromProxy inner)))"

subsection \<open>Messages thrown by the fetchers\<close>

text \<open>\<open>throw new Error(`HTTP ${res.status}`)\<close> at status 500, in every fetcher.\<close>

definition msg_HTTP_500 :: js_string where
  "msg_HTTP_500 = ascii ''HTTP 500''"

text \<open>\<open>fetchFromTwelveData\<close>: the symbol is not found (the text, then the symbol in brackets).\<close>

definition msg_TD_not_found :: "js_string \<Rightarrow> js_string" where
  "msg_TD_not_found symbol =
     [0x9298, 0x67C4, 0x304C, 0x898B, 0x3064, 0x304B, 0x308A, 0x307E, 0x305B, 0x3093,
      0xFF08] @ symbol @ [0xFF09]"

text \<open>\<open>fetchFromTwelveData\<close>: the quota of the provider is used up.\<close>

definition msg_TD_rate_limited :: js_string where
  "msg_TD_rate_limited =
     ascii ''[TD] API'' @
     [0x5229, 0x7528, 0x5236, 0x9650, 0x3002, 0x3057, 0x3070, 0x3089, 0x304F, 0x5F85,
      0x3063, 0x3066, 0x304B, 0x3089, 0x518D, 0x8A66, 0x884C, 0x3057, 0x3066, 0x304F,
      0x3060, 0x3055, 0x3044, 0x3002]"

text \<open>\<open>resolveAVSymbol\<close> and \<open>fetchAVDailyData\<close>: the daily quota (25 calls) is used up.\<close>

definition msg_AV_rate_limited :: js_string where
  "msg_AV_rate_limited =
     ascii ''[AV] API'' @
     [0x5229, 0x7528, 0x5236, 0x9650, 0x4E2D, 0xFF08] @ ascii ''25'' @ [0x56DE] @ ascii ''/'' @
     [0x65E5, 0xFF09, 0x3002, 0x660E, 0x65E5, 0x307E, 0x305F, 0x8A66, 0x3057, 0x3066,
      0x304F, 0x3060, 0x3055, 0x3044, 0x3002]"

subsection \<open>The priority order in the words of the specification\<close>

text \<open>
  The error kinds of the specification that the priority rule names, and the rule itself:
  a user-actionable error (symbol not found) before a provider-internal one (rate limit)
  before a generic transport error; among errors of one rank the first attempt's.
\<close>

datatype error_kind = SymbolNotFound | RateLimited | Transport

fun spec_rank :: "error_kind \<Rightarrow> nat" where
  "spec_rank SymbolNotFound = 1"
| "spec_rank RateLimited = 2"
| "spec_rank Transport = 3"

definition spec_surfaced :: "(error_kind \<times> js_string) list \<Rightarrow> js_string option" where
  "spec_surfaced failures =
     (case find (\<lambda>f. spec_rank (fst f) = 1) failures of
        Some f \<Rightarrow> Some (snd f)
      | None \<Rightarrow>
          (case find (\<lambda>f. spec_rank (fst f) = 2) failures of
             Some f \<Rightarrow> Some (snd f)
           | None \<Rightarrow> map_option snd (index0 failures)))"

section \<open>Properties of the number model\<close>

subsection \<open>Rounding\<close>

text \<open>
  \<open>ilog2\<close> is the binary exponent of a positive rational, \<open>rne\<close> is within one half of
  its argument, and a finite result of \<open>round_double\<close> is within half a spacing of the
  exact value.
\<close>

lemma pow2_powi: "pow2 n = 2 powi n"
  by (simp add: pow2_def power_int_def inverse_eq_divide power_one_over)

lemma pow2_pos: "0 < pow2 n"
  by (simp add: pow2_powi)

lemma pow2_add: "pow2 (m + n) = pow2 m * pow2 n"
  by (simp add: pow2_powi power_int_add)

lemma pow2_diff: "pow2 (m - n) = pow2 m / pow2 n"
  by (simp add: pow2_powi power_int_diff)

lemma pow2_nat: "0 \<le> n \<Longrightarrow> pow2 n = 2 ^ nat n"
  by (simp add: pow2_def)

lemma pow2_mono: "m \<le> n \<Longrightarrow> pow2 m \<le> pow2 n"
  by (simp add: pow2_powi power_int_increasing)

lemma ilog2_bounds:
  assumes "0 < r"
  shows "pow2 (ilog2 r) \<le> r \<and> r < pow2 (ilog2 r + 1)"
proof -
  obtain a b where q: "quotient_of r = (a, b)"
    by (cases "quotient_of r")
  then have b: "0 < b" and r: "r = of_int a / of_int b"
    by (simp_all add: quotient_of_denom_pos quotient_of_div)
  from assms r b have a: "0 < a"
    by (simp add: zero_less_divide_iff)
  define la lb where "la = bitlen a" and "lb = bitlen b"
  from bitlen_bounds [OF a] have a_lo: "2 ^ nat (la - 1) \<le> a" and a_hi: "a < 2 ^ nat la"
    by (simp_all add: la_def)
  from bitlen_bounds [OF b] have b_lo: "2 ^ nat (lb - 1) \<le> b" and b_hi: "b < 2 ^ nat lb"
    by (simp_all add: lb_def)
  have la1: "1 \<le> la" and lb1: "1 \<le> lb"
    using a b bitlen_eq_zero_iff [of a] bitlen_eq_zero_iff [of b] bitlen_nonneg [of a] bitlen_nonneg [of b]
    by (auto simp: la_def lb_def)
  have A_lo: "pow2 (la - 1) \<le> of_int a"
  proof -
    have "(of_int (2 ^ nat (la - 1)) :: rat) \<le> of_int a"
      using a_lo by (simp only: of_int_le_iff)
    then show ?thesis using la1 by (simp add: pow2_nat)
  qed
  have A_hi: "of_int a < pow2 la"
  proof -
    have "(of_int a :: rat) < of_int (2 ^ nat la)"
      using a_hi by (simp only: of_int_less_iff)
    then show ?thesis using la1 by (simp add: pow2_nat)
  qed
  have B_lo: "pow2 (lb - 1) \<le> of_int b"
  proof -
    have "(of_int (2 ^ nat (lb - 1)) :: rat) \<le> of_int b"
      using b_lo by (simp only: of_int_le_iff)
    then show ?thesis using lb1 by (simp add: pow2_nat)
  qed
  have B_hi: "of_int b < pow2 lb"
  proof -
    have "(of_int b :: rat) < of_int (2 ^ nat lb)"
      using b_hi by (simp only: of_int_less_iff)
    then show ?thesis using lb1 by (simp add: pow2_nat)
  qed
  have bpos: "(0::rat) < of_int b" using b by simp
  have lower: "pow2 (la - lb - 1) \<le> r"
  proof -
    have "pow2 (la - lb - 1) = pow2 (la - 1) / pow2 lb"
      using pow2_diff [of "la - 1" lb] by (simp add: algebra_simps)
    also have "\<dots> \<le> of_int a / pow2 lb"
      using A_lo pow2_pos [of lb] by (simp add: divide_right_mono)
    also have "\<dots> \<le> of_int a / of_int b"
      using B_hi bpos a by (intro divide_left_mono) (simp_all add: pow2_pos)
    finally show ?thesis by (simp add: r)
  qed
  have upper: "r < pow2 (la - lb + 1)"
  proof -
    have "r = of_int a / of_int b" by (rule r)
    also have "\<dots> < pow2 la / of_int b"
      using A_hi bpos by (simp add: divide_strict_right_mono)
    also have "\<dots> \<le> pow2 la / pow2 (lb - 1)"
      using B_lo pow2_pos [of "lb - 1"] pow2_pos [of la] by (intro divide_left_mono) simp_all
    also have "\<dots> = pow2 (la - lb + 1)"
      using pow2_diff [of la "lb - 1"] by (simp add: algebra_simps)
    finally show ?thesis .
  qed
  show ?thesis
  proof (cases "pow2 (la - lb) \<le> r")
    case True
    then have "ilog2 r = la - lb"
      by (simp add: ilog2_def q la_def lb_def)
    with True upper show ?thesis by simp
  next
    case False
    then have "ilog2 r = la - lb - 1"
      by (simp add: ilog2_def q la_def lb_def)
    with False lower show ?thesis by simp
  qed
qed

lemma rne_nearest: "\<bar>of_int (rne x) - x\<bar> \<le> 1 / 2"
proof -
  have "of_int \<lfloor>x\<rfloor> \<le> x" "x < of_int \<lfloor>x\<rfloor> + 1"
    by linarith+
  then show ?thesis
    by (auto simp: rne_def Let_def abs_le_iff)
qed

lemma rne_nonneg: "0 \<le> x \<Longrightarrow> 0 \<le> rne x"
  by (auto simp: rne_def Let_def)

lemma round_double_error:
  assumes "round_double r = Fin v"
  shows "\<bar>v - r\<bar> \<le> pow2 (max (ilog2 \<bar>r\<bar>) (- 1022) - 52) / 2"
proof (cases "r = 0")
  case True
  with assms show ?thesis
    using pow2_pos [of "max (ilog2 \<bar>r\<bar>) (- 1022) - 52"] by (simp add: round_double_def)
next
  case False
  define q where "q = pow2 (max (ilog2 \<bar>r\<bar>) (- 1022) - 52)"
  have q: "0 < q"
    by (simp add: q_def pow2_pos)
  from assms False have v: "v = of_int (rne (r / q)) * q"
    by (auto simp: round_double_def Let_def q_def signed_inf_def signed_zero_def
             split: if_splits)
  have "\<bar>of_int (rne (r / q)) - r / q\<bar> \<le> 1 / 2"
    by (rule rne_nearest)
  then have "\<bar>of_int (rne (r / q)) - r / q\<bar> * q \<le> 1 / 2 * q"
    using q by (intro mult_right_mono) simp_all
  moreover have "\<bar>of_int (rne (r / q)) - r / q\<bar> * q = \<bar>v - r\<bar>"
  proof -
    have "(of_int (rne (r / q)) - r / q) * q = v - r"
      using q by (simp add: v left_diff_distrib)
    then have "\<bar>v - r\<bar> = \<bar>of_int (rne (r / q)) - r / q\<bar> * \<bar>q\<bar>"
      by (simp only: abs_mult [symmetric])
    with q show ?thesis by simp
  qed
  ultimately show ?thesis
    by (simp add: q_def)
qed

subsection \<open>Comparisons\<close>

lemma js_le_trans: "js_le a b \<Longrightarrow> js_le b c \<Longrightarrow> js_le a c"
  by (cases a; cases b; cases c) (auto simp: js_le_def)

lemma js_lt_le_trans: "js_lt a b \<Longrightarrow> js_le b c \<Longrightarrow> js_lt a c"
  by (cases a; cases b; cases c) (auto simp: js_le_def js_lt_def)

lemma js_le_lt_trans: "js_le a b \<Longrightarrow> js_lt b c \<Longrightarrow> js_lt a c"
  by (cases a; cases b; cases c) (auto simp: js_le_def js_lt_def)

lemma js_lt_imp_le: "js_lt a b \<Longrightarrow> js_le a b"
  by (cases a; cases b) (auto simp: js_le_def js_lt_def)

lemma js_lt_not_le: "js_lt a b \<Longrightarrow> \<not> js_le b a"
  by (cases a; cases b) (auto simp: js_le_def js_lt_def)

lemma js_le_not_lt: "js_le a b \<Longrightarrow> \<not> js_lt b a"
  by (cases a; cases b) (auto simp: js_le_def js_lt_def)

lemma js_lt_not_NaN: "js_lt a b \<Longrightarrow> a \<noteq> NaN \<and> b \<noteq> NaN"
  by (simp add: js_lt_def)

lemma js_le_not_NaN: "js_le a b \<Longrightarrow> a \<noteq> NaN \<and> b \<noteq> NaN"
  by (simp add: js_le_def)

lemma js_le_Fin [simp]: "js_le (Fin a) (Fin b) \<longleftrightarrow> a \<le> b"
  by (simp add: js_le_def)

lemma js_lt_Fin [simp]: "js_lt (Fin a) (Fin b) \<longleftrightarrow> a < b"
  by (simp add: js_lt_def)

lemma falsy_le_positive: "falsy t \<Longrightarrow> t \<noteq> NaN \<Longrightarrow> js_lt (Fin 0) c \<Longrightarrow> js_le t c"
  by (cases c) (auto simp: falsy_def is_zero_def js_le_def js_lt_def)

subsection \<open>Sample values\<close>

text \<open>
  The doubles nearest to three decimal literals, and values of the engine's functions where
  the rounding of the arithmetic decides the result: the stop of a US price at half a
  cent, a price at the upper end of the support band, a risk of two percent, a current
  price of zero, and two risk-reward ratios.
\<close>

lemma lit_one_tenth: "lit (1 / 10) = Fin (3602879701896397 / 36028797018963968)"
  by code_simp

lemma lit_995: "lit (995 / 1000) = Fin (8962163258467287 / 9007199254740992)"
  by code_simp

lemma lit_98: "lit (98 / 100) = Fin (8827055269646172 / 9007199254740992)"
  by code_simp

lemma lit_integer: "lit 100 = Fin 100 \<and> lit 2 = Fin 2"
  by code_simp

lemma calcStopLoss_half_cent:
  "calcStopLoss (Fin 6) (Fin 5) ''us'' = lit (497 / 100)
   \<and> calcStopLoss (lit (825 / 100)) (lit (825 / 100)) ''us'' = lit (808 / 100)"
  by code_simp

lemma calcPricePositionScore_band_end:
  "calcPricePositionScore (lit (2121 / 10000)) (lit (63 / 100)) (lit (21 / 100))
     = \<lparr>score = Fin 0, position = Range\<rparr>"
  by code_simp

lemma riskPercent_two_percent:
  "riskPercent (Fin 1) (lit (98 / 100)) = Fin (2 + 1 / 2 ^ 49)
   \<and> riskPercent (Fin 100) (Fin 98) = Fin 2
   \<and> size_class (calcPositionSize (Fin 4) (Fin 1) (lit (98 / 100)) (Fin 4) ''good'') = Medium
   \<and> size_class (calcPositionSize (Fin 4) (Fin 100) (Fin 98) (Fin 4) ''good'') = Large"
  by code_simp

lemma riskPercent_price_zero:
  "riskPercent (Fin 0) (Fin 0) = NaN
   \<and> size_class (calcPositionSize (Fin 4) (Fin 0) (Fin 0) (Fin 4) ''good'') = Pass"
  by code_simp

lemma calcRR_rounded_quotient:
  "calcRR (lit (4 / 100)) (lit (3 / 100)) (Some (lit (6 / 100)))
     = Some (lit (19999999999999993 / 10000000000000000))
   \<and> calcRR (lit (11 / 10)) (Fin 1) (Some (lit (13 / 10)))
     = Some (lit (19999999999999978 / 10000000000000000))"
  by code_simp

section \<open>Properties of the scoring functions\<close>

subsection \<open>Market score\<close>

lemma calcMarketScore_cases:
  "calcMarketScore s =
     (if s = ''good'' then Num (Fin 2) else if s = ''normal'' then Num (Fin 0)
      else if s = ''bad'' then Num (Fin (- 2))
      else if s \<in> set Object_prototype_keys then Inherited s else Num (Fin 0))"
  by (simp add: calcMarketScore_def get_property_def nullish_or_def)

text \<open>
  Claim C5: \<open>calcMarketScore\<close> returns 2, 0 and -2 for \<open>good\<close>, \<open>normal\<close> and \<open>bad\<close> and 0
  for every other string. The three mapped values and the default are as claimed
  (\<open>calcMarketScore_cases\<close>), but the lookup table is an object literal, so a key of
  \<open>Object.prototype\<close> is found along the prototype chain before \<open>??\<close> can supply the
  default: for the string \<open>toString\<close> the function returns the inherited built-in, which is
  not the number 0.
\<close>

theorem calcMarketScore_inherited_key:
  "calcMarketScore ''toString'' = Inherited ''toString''
   \<and> calcMarketScore ''toString'' \<noteq> Num (Fin 0)"
  by (simp add: calcMarketScore_def get_property_def nullish_or_def Object_prototype_keys_def)

subsection \<open>Stop-loss\<close>

text \<open>
  The product of a positive finite number and a factor below one, rounded, is below the
  number or below one; its floor is then below any positive bound above the number. So
  with the integer floor (every market tag but \<open>us\<close>) the stop is below the current price
  for all positive finite prices.
\<close>

lemma js_mul_shrinks:
  assumes y: "0 < y" "y < pow2 1024" and c: "0 < c" "c \<le> 1 - 1 / 2 ^ 52"
  shows "\<exists>v. js_mul (Fin y) (Fin c) = Fin v \<and> 0 \<le> v \<and> (v < y \<or> v < 1)"
proof -
  define x where "x = y * c"
  have x: "0 < x" "x < y"
    using y c by (simp_all add: x_def mult_less_cancel_left2)
  define e where "e = ilog2 x"
  from ilog2_bounds [OF x(1)] have e_lo: "pow2 e \<le> x" and e_hi: "x < pow2 (e + 1)"
    by (simp_all add: e_def)
  have e_max: "e \<le> 1023"
  proof (rule ccontr)
    assume "\<not> e \<le> 1023"
    then have "pow2 1024 \<le> pow2 e"
      by (intro pow2_mono) simp
    with e_lo x(2) y(2) show False by simp
  qed
  define q where "q = pow2 (max e (- 1022) - 52)"
  have q: "0 < q"
    by (simp add: q_def pow2_pos)
  define m where "m = rne (x / q)"
  have m0: "0 \<le> m"
    using x(1) q by (simp add: m_def rne_nonneg)
  have near: "\<bar>of_int m - x / q\<bar> \<le> 1 / 2"
    unfolding m_def by (rule rne_nearest)
  then have "of_int m - x / q \<le> 1 / 2"
    by (rule abs_le_D1)
  then have m_hi: "of_int m \<le> x / q + 1 / 2"
    by simp
  then have "of_int m * q \<le> (x / q + 1 / 2) * q"
    using q by (intro mult_right_mono) simp_all
  then have v_hi: "of_int m * q \<le> x + q / 2"
    using q by (simp add: distrib_right)
  have no_overflow: "\<not> (e = 1023 \<and> \<bar>m\<bar> = 9007199254740992)"
  proof
    assume h: "e = 1023 \<and> \<bar>m\<bar> = 9007199254740992"
    then have qv: "q = pow2 971"
      by (simp add: q_def)
    define d :: rat where "d = 1 - 1 / 2 ^ 52"
    have "x < pow2 1024 * c"
      using y(2) c(1) by (simp add: x_def)
    also have "\<dots> \<le> pow2 1024 * d"
      using c(2) pow2_pos [of 1024] unfolding d_def by (intro mult_left_mono) simp_all
    finally have "x / pow2 971 < pow2 1024 * d / pow2 971"
      using pow2_pos [of 971] by (rule divide_strict_right_mono)
    moreover have r53: "pow2 1024 / pow2 971 = 2 ^ 53"
      using pow2_diff [of 1024 971] by (simp add: pow2_nat)
    have "pow2 1024 * d / pow2 971 = pow2 1024 / pow2 971 * d"
      by simp
    then have "pow2 1024 * d / pow2 971 = 2 ^ 53 * d"
      by (simp only: r53)
    ultimately have "x / q < 2 ^ 53 * d"
      by (simp only: qv)
    with m_hi have "(of_int m :: rat) < 2 ^ 53 * d + 1 / 2"
      by simp
    then have "(of_int m :: rat) < 9007199254740992"
      by (simp add: d_def)
    moreover from h m0 have "(of_int m :: rat) = 9007199254740992"
      by simp
    ultimately show False by simp
  qed
  have res: "js_mul (Fin y) (Fin c) = Fin (of_int m * q)"
  proof -
    have "js_mul (Fin y) (Fin c) = round_double x"
      using y(1) c(1) by (simp add: js_mul_def is_inf_def x_def)
    also have "\<dots> = Fin (of_int m * q)"
      using x(1) e_max no_overflow
      by (auto simp: round_double_def Let_def e_def [symmetric] q_def [symmetric]
                     m_def [symmetric] signed_zero_def)
    finally show ?thesis .
  qed
  have bound: "of_int m * q < y \<or> of_int m * q < 1"
  proof (cases "- 1022 \<le> e")
    case True
    then have "q = pow2 e / 2 ^ 52"
      using pow2_diff [of e 52] by (simp add: q_def max_def pow2_nat)
    with e_lo have "q \<le> x / 2 ^ 52"
      by (simp add: divide_right_mono)
    with v_hi have "of_int m * q \<le> x * (1 + 1 / 2 ^ 53)"
      by (simp add: algebra_simps)
    also have "\<dots> = y * (c * (1 + 1 / 2 ^ 53))"
      by (simp add: x_def)
    also have "\<dots> \<le> y * ((1 - 1 / 2 ^ 52) * (1 + 1 / 2 ^ 53))"
      using y(1) c(2) by (intro mult_left_mono mult_right_mono) simp_all
    also have "\<dots> < y * 1"
      using y(1) by (intro mult_strict_left_mono) simp_all
    finally show ?thesis by simp
  next
    case False
    then have qv: "q = pow2 (- 1074)"
      by (simp add: q_def max_def)
    from False have "pow2 (e + 1) \<le> pow2 (- 1)"
      by (intro pow2_mono) simp
    with e_hi have "x < 1 / 2"
      by (simp add: pow2_def)
    moreover have "pow2 (- 1074) \<le> pow2 0"
      by (intro pow2_mono) simp
    then have "q / 2 \<le> 1 / 2"
      by (simp add: qv pow2_def)
    ultimately show ?thesis
      using v_hi by simp
  qed
  from res m0 q bound show ?thesis
    by simp
qed

lemma Math_floor_below:
  assumes "0 \<le> v" and "v < y \<or> v < 1" and "0 < y"
  shows "js_lt (Math_floor (Fin v)) (Fin y)"
proof -
  from assms(2) have "(of_int \<lfloor>v\<rfloor> :: rat) < y"
  proof
    assume "v < y"
    moreover have "of_int \<lfloor>v\<rfloor> \<le> v"
      by simp
    ultimately show ?thesis
      by (rule le_less_trans [rotated])
  next
    assume "v < 1"
    with assms(1) have "\<lfloor>v\<rfloor> = 0"
      by (simp add: floor_eq_iff)
    with assms(3) show ?thesis
      by simp
  qed
  then show ?thesis
    by simp
qed

lemma calcStopLoss_floor_below:
  assumes "0 < currentPrice" and "currentPrice < pow2 1024"
    and "0 < prevLow" and "prevLow < pow2 1024" and "market \<noteq> ''us''"
  shows "js_lt (calcStopLoss (Fin currentPrice) (Fin prevLow) market) (Fin currentPrice)"
proof (cases "prevLow < currentPrice")
  case True
  have c: "(0::rat) < 8962163258467287 / 9007199254740992"
          "(8962163258467287 / 9007199254740992 :: rat) \<le> 1 - 1 / 2 ^ 52"
    by simp_all
  from js_mul_shrinks [OF assms(3,4) c]
  obtain v where v: "js_mul (Fin prevLow) (Fin (8962163258467287 / 9007199254740992)) = Fin v"
      "0 \<le> v" "v < prevLow \<or> v < 1"
    by blast
  from v(3) True have "v < currentPrice \<or> v < 1"
    by auto
  from Math_floor_below [OF v(2) this assms(1)]
  have "js_lt (Math_floor (Fin v)) (Fin currentPrice)" .
  then show ?thesis
    unfolding calcStopLoss_def round_for_def lit_995 js_gt_def
    using True assms(5) v(1) by simp
next
  case False
  have c: "(0::rat) < 8827055269646172 / 9007199254740992"
          "(8827055269646172 / 9007199254740992 :: rat) \<le> 1 - 1 / 2 ^ 52"
    by simp_all
  from js_mul_shrinks [OF assms(1,2) c]
  obtain v where v: "js_mul (Fin currentPrice) (Fin (8827055269646172 / 9007199254740992)) = Fin v"
      "0 \<le> v" "v < currentPrice \<or> v < 1"
    by blast
  from Math_floor_below [OF v(2,3) assms(1)]
  have "js_lt (Math_floor (Fin v)) (Fin currentPrice)" .
  then show ?thesis
    unfolding calcStopLoss_def round_for_def lit_98 js_gt_def
    using False assms(5) v(1) by simp
qed

text \<open>
  Claim C1: for the markets \<open>jp\<close> and \<open>us\<close> and positive inputs the stop-loss is below the
  current price, in both branches. For \<open>jp\<close> and finite prices this holds
  (\<open>calcStopLoss_floor_below\<close>). For \<open>us\<close> the stop is rounded to the nearest cent, which
  can round up: at a current price and prior low of 0.10 the stop is round(9.8) / 100 =
  0.10, the current price itself.
\<close>

theorem calcStopLoss_us_not_below:
  "calcStopLoss (lit (1 / 10)) (lit (1 / 10)) ''us'' = lit (1 / 10)
   \<and> \<not> js_lt (calcStopLoss (lit (1 / 10)) (lit (1 / 10)) ''us'') (lit (1 / 10))"
  by code_simp

lemma js_div_nonneg_int:
  "0 \<le> k \<Longrightarrow> js_div (Fin (of_int k)) (Fin 100) = round_double (of_int k / 100)"
  by (simp add: js_div_def is_inf_def is_zero_def signed_zero_def round_double_def)

text \<open>
  Claim C3: for positive inputs \<open>calcStopLoss\<close> rounds \<open>prevLow * 0.995\<close> when the current
  price is above the prior low, and \<open>currentPrice * 0.98\<close> otherwise, the products being
  those of the engine's arithmetic. The rounding is the integer floor for \<open>jp\<close>. For \<open>us\<close>
  it is \<open>Math.round(v * 100) / 100\<close>: the double nearest to the cent amount \<open>k / 100\<close>, where
  \<open>k\<close> is the integer nearest to the product \<open>v * 100\<close> (a tie going up).
  \<open>calcStopLoss(105, 100, 'jp') = 99\<close> and \<open>calcStopLoss(95, 100, 'us') = 93.10\<close>.
\<close>

theorem calcStopLoss_rounding:
  assumes "js_lt (Fin 0) currentPrice" and "js_lt (Fin 0) prevLow"
  defines "base \<equiv> (if js_gt currentPrice prevLow then js_mul prevLow (lit (995 / 1000))
                    else js_mul currentPrice (lit (98 / 100)))"
  shows "(market = ''jp'' \<longrightarrow>
            calcStopLoss currentPrice prevLow market = Math_floor base
          \<and> (\<forall>r. base = Fin r \<longrightarrow>
                calcStopLoss currentPrice prevLow market = Fin (of_int \<lfloor>r\<rfloor>)))
       \<and> (market = ''us'' \<longrightarrow>
            calcStopLoss currentPrice prevLow market
              = js_div (Math_round (js_mul base (Fin 100))) (Fin 100)
          \<and> (\<forall>r. js_mul base (Fin 100) = Fin r \<and> 0 \<le> r \<longrightarrow>
                calcStopLoss currentPrice prevLow market
                  = round_double (of_int \<lfloor>r + 1 / 2\<rfloor> / 100)))
       \<and> calcStopLoss (Fin 105) (Fin 100) ''jp'' = Fin 99
       \<and> calcStopLoss (Fin 95) (Fin 100) ''us'' = lit (931 / 10)"
proof -
  have jp: "market = ''jp'' \<longrightarrow>
            calcStopLoss currentPrice prevLow market = Math_floor base
          \<and> (\<forall>r. base = Fin r \<longrightarrow>
                calcStopLoss currentPrice prevLow market = Fin (of_int \<lfloor>r\<rfloor>))"
    by (simp add: calcStopLoss_def round_for_def base_def)
  have us_eq: "calcStopLoss currentPrice prevLow ''us''
              = js_div (Math_round (js_mul base (Fin 100))) (Fin 100)"
    by (simp add: calcStopLoss_def round_for_def base_def)
  have us_val: "calcStopLoss currentPrice prevLow ''us''
                  = round_double (of_int \<lfloor>r + 1 / 2\<rfloor> / 100)"
    if "js_mul base (Fin 100) = Fin r" and "0 \<le> r" for r
  proof -
    from that(2) have k: "0 \<le> \<lfloor>r + 1 / 2\<rfloor>"
      by simp
    from that have "Math_round (js_mul base (Fin 100)) = Fin (of_int \<lfloor>r + 1 / 2\<rfloor>)"
      by simp
    with us_eq js_div_nonneg_int [OF k] show ?thesis
      by simp
  qed
  have ex: "calcStopLoss (Fin 105) (Fin 100) ''jp'' = Fin 99
       \<and> calcStopLoss (Fin 95) (Fin 100) ''us'' = lit (931 / 10)"
    by code_simp
  from jp us_eq us_val ex show ?thesis
    by blast
qed

theorem calcStopLoss_rounding_witness:
  "js_lt (Fin 0) (Fin 95) \<and> js_lt (Fin 0) (Fin 100)
   \<and> js_mul (js_mul (Fin 95) (lit (98 / 100))) (Fin 100) = Fin 9310
   \<and> calcStopLoss (Fin 95) (Fin 100) ''us''
        = round_double (of_int \<lfloor>9310 + 1 / 2 :: rat\<rfloor> / 100)
   \<and> calcStopLoss (Fin 95) (Fin 100) ''us'' = lit (931 / 10)"
proof -
  have pos: "js_lt (Fin 0) (Fin 95)" "js_lt (Fin 0) (Fin 100)"
    by simp_all
  have branch: "\<not> js_gt (Fin 95) (Fin 100)"
    by (simp add: js_gt_def)
  have prod: "js_mul (js_mul (Fin 95) (lit (98 / 100))) (Fin 100) = Fin 9310"
    by code_simp
  have nonneg: "(0::rat) \<le> 9310"
    by simp
  note at_95 = calcStopLoss_rounding [OF pos, of "''us''", unfolded if_not_P [OF branch]]
  from at_95 prod nonneg pos show ?thesis
    by blast
qed

subsection \<open>Price position\<close>

text \<open>
  Claim C4: for a prior range with \<open>0 < prevLow \<le> prevHigh\<close> and a positive price,
  \<open>calcPricePositionScore\<close> gives -2 and \<open>above_high\<close> above the prior high, -3 and
  \<open>below_low\<close> below the prior low, and inside the range +1 and \<open>near_support\<close> up to
  \<open>prevLow * 1.01\<close> (inclusive), else -1 and \<open>near_resistance\<close> from \<open>prevHigh * 0.99\<close>
  (inclusive), else 0 and \<open>range\<close>, the two thresholds being the products of the engine's
  arithmetic; with the range 100 to 110 the prices 111, 99, 101, 109 and 105 score -2, -3,
  +1, -1 and 0.
\<close>

theorem calcPricePositionScore_bands:
  assumes "js_lt (Fin 0) prevLow" and "js_le prevLow prevHigh" and "js_lt (Fin 0) currentPrice"
  shows "(js_gt currentPrice prevHigh \<longrightarrow>
            calcPricePositionScore currentPrice prevHigh prevLow
              = \<lparr>score = Fin (- 2), position = Above_high\<rparr>)
       \<and> (js_lt currentPrice prevLow \<longrightarrow>
            calcPricePositionScore currentPrice prevHigh prevLow
              = \<lparr>score = Fin (- 3), position = Below_low\<rparr>)
       \<and> (js_le prevLow currentPrice \<and> js_le currentPrice prevHigh
            \<and> js_le currentPrice (js_mul prevLow (lit (101 / 100))) \<longrightarrow>
            calcPricePositionScore currentPrice prevHigh prevLow
              = \<lparr>score = Fin 1, position = Near_support\<rparr>)
       \<and> (js_le prevLow currentPrice \<and> js_le currentPrice prevHigh
            \<and> \<not> js_le currentPrice (js_mul prevLow (lit (101 / 100)))
            \<and> js_ge currentPrice (js_mul prevHigh (lit (99 / 100))) \<longrightarrow>
            calcPricePositionScore currentPrice prevHigh prevLow
              = \<lparr>score = Fin (- 1), position = Near_resistance\<rparr>)
       \<and> (js_le prevLow currentPrice \<and> js_le currentPrice prevHigh
            \<and> \<not> js_le currentPrice (js_mul prevLow (lit (101 / 100)))
            \<and> \<not> js_ge currentPrice (js_mul prevHigh (lit (99 / 100))) \<longrightarrow>
            calcPricePositionScore currentPrice prevHigh prevLow
              = \<lparr>score = Fin 0, position = Range\<rparr>)
       \<and> calcPricePositionScore (Fin 111) (Fin 110) (Fin 100)
            = \<lparr>score = Fin (- 2), position = Above_high\<rparr>
       \<and> calcPricePositionScore (Fin 99) (Fin 110) (Fin 100)
            = \<lparr>score = Fin (- 3), position = Below_low\<rparr>
       \<and> calcPricePositionScore (Fin 101) (Fin 110) (Fin 100)
            = \<lparr>score = Fin 1, position = Near_support\<rparr>
       \<and> calcPricePositionScore (Fin 109) (Fin 110) (Fin 100)
            = \<lparr>score = Fin (- 1), position = Near_resistance\<rparr>
       \<and> calcPricePositionScore (Fin 105) (Fin 110) (Fin 100)
            = \<lparr>score = Fin 0, position = Range\<rparr>"
proof -
  have below: "\<not> js_gt currentPrice prevHigh" if "js_lt currentPrice prevLow"
    using js_le_not_lt [OF js_lt_imp_le [OF js_lt_le_trans [OF that assms(2)]]]
    by (simp add: js_gt_def)
  have inside: "\<not> js_gt currentPrice prevHigh \<and> \<not> js_lt currentPrice prevLow"
    if "js_le prevLow currentPrice" and "js_le currentPrice prevHigh"
    using js_le_not_lt [OF that(1)] js_le_not_lt [OF that(2)] by (simp add: js_gt_def)
  have ex: "calcPricePositionScore (Fin 111) (Fin 110) (Fin 100)
            = \<lparr>score = Fin (- 2), position = Above_high\<rparr>
       \<and> calcPricePositionScore (Fin 99) (Fin 110) (Fin 100)
            = \<lparr>score = Fin (- 3), position = Below_low\<rparr>
       \<and> calcPricePositionScore (Fin 101) (Fin 110) (Fin 100)
            = \<lparr>score = Fin 1, position = Near_support\<rparr>
       \<and> calcPricePositionScore (Fin 109) (Fin 110) (Fin 100)
            = \<lparr>score = Fin (- 1), position = Near_resistance\<rparr>
       \<and> calcPricePositionScore (Fin 105) (Fin 110) (Fin 100)
            = \<lparr>score = Fin 0, position = Range\<rparr>"
    by code_simp
  show ?thesis
    using below inside ex by (simp add: calcPricePositionScore_def)
qed

theorem calcPricePositionScore_bands_witness:
  "js_lt (Fin 0) (Fin 100) \<and> js_le (Fin 100) (Fin 110) \<and> js_lt (Fin 0) (Fin 109)
   \<and> js_mul (Fin 100) (lit (101 / 100)) = Fin 101
   \<and> js_ge (Fin 109) (js_mul (Fin 110) (lit (99 / 100)))
   \<and> calcPricePositionScore (Fin 109) (Fin 110) (Fin 100)
        = \<lparr>score = Fin (- 1), position = Near_resistance\<rparr>"
proof -
  have hyp: "js_lt (Fin 0) (Fin 100)" "js_le (Fin 100) (Fin 110)" "js_lt (Fin 0) (Fin 109)"
    by simp_all
  have sup: "js_mul (Fin 100) (lit (101 / 100)) = Fin 101"
    by code_simp
  have res: "js_ge (Fin 109) (js_mul (Fin 110) (lit (99 / 100)))"
    by code_simp
  from calcPricePositionScore_bands [OF hyp] sup res hyp show ?thesis
    by simp
qed

subsection \<open>Entry signal\<close>

text \<open>
  Claim C2: the entry signal follows the rule list in order, the first match winning and
  the hard rules before the score thresholds. A focus of at most 2 gives \<open>ng\<close> whatever the
  score (focus 1 with score 10 gives \<open>ng\<close>). Otherwise, on the short horizon a bad sentiment
  with focus below 4 gives \<open>ng\<close>, and on the mid horizon earnings within a week with a
  score below 5 give \<open>watch\<close>; otherwise a score of at least 3 (short) or 5 (mid) gives
  \<open>ok\<close>, a score of at least 0 (short) or 1 (mid) gives \<open>watch\<close>, and anything else \<open>ng\<close>.
\<close>

theorem entry_signal_rules:
  "(js_le focus (Fin 2) \<longrightarrow> signal (calcEntrySignal totalScore focus sentiment) = Ng
                  \<and> signal (calcEntrySignalMid totalScore focus earningsProx) = Ng)
   \<and> signal (calcEntrySignal (Fin 10) (Fin 1) sentiment) = Ng
   \<and> signal (calcEntrySignalMid (Fin 10) (Fin 1) earningsProx) = Ng
   \<and> (\<not> js_le focus (Fin 2) \<longrightarrow>
        signal (calcEntrySignal totalScore focus sentiment) =
          (if sentiment = ''bad'' \<and> js_lt focus (Fin 4) then Ng
           else if js_ge totalScore (Fin 3) then Ok
           else if js_ge totalScore (Fin 0) then Watch
           else Ng)
      \<and> signal (calcEntrySignalMid totalScore focus earningsProx) =
          (if earningsProx = ''week'' \<and> js_lt totalScore (Fin 5) then Watch
           else if js_ge totalScore (Fin 5) then Ok
           else if js_ge totalScore (Fin 1) then Watch
           else Ng))"
  by (simp add: calcEntrySignal_def calcEntrySignalMid_def)

theorem entry_signal_rules_witness:
  "signal (calcEntrySignal (Fin 10) (Fin 1) ''good'') = Ng
   \<and> signal (calcEntrySignalMid (Fin 10) (Fin 1) ''far'') = Ng
   \<and> signal (calcEntrySignal (Fin 2) (Fin 3) ''bad'') = Ng
   \<and> signal (calcEntrySignalMid (Fin 4) (Fin 5) ''week'') = Watch
   \<and> signal (calcEntrySignal (Fin 3) (Fin 3) ''good'') = Ok
   \<and> signal (calcEntrySignalMid (Fin 5) (Fin 3) ''week'') = Ok"
  using entry_signal_rules [of "Fin 1" "Fin 10" "''good''" "''far''"]
        entry_signal_rules [of "Fin 3" "Fin 2" "''bad''" "''week''"]
        entry_signal_rules [of "Fin 5" "Fin 4" "''bad''" "''week''"]
        entry_signal_rules [of "Fin 3" "Fin 3" "''good''" "''far''"]
        entry_signal_rules [of "Fin 3" "Fin 5" "''good''" "''week''"]
  by (simp add: js_ge_def)

subsection \<open>Risk-reward ratio\<close>

text \<open>
  Claim C6: for a positive current price, \<open>calcRR\<close> returns \<open>null\<close> exactly when the target
  price is absent (\<open>null\<close>, or the not-a-number that \<open>parseFloat\<close> gives for a field that
  does not parse), the target is at most the current price, or the risk
  \<open>currentPrice - stopLoss\<close> is at most 0; otherwise it returns
  \<open>(targetPrice - currentPrice) / (currentPrice - stopLoss)\<close>, in the engine's arithmetic;
  \<open>calcRR(100, 95, 115) = 3\<close> and \<open>calcRR(100, 95, 90) = null\<close>.
\<close>

theorem calcRR_null_cases:
  assumes "js_lt (Fin 0) currentPrice"
  shows "(calcRR currentPrice stopLoss targetPrice = None \<longleftrightarrow>
            targetPrice = None \<or> targetPrice = Some NaN
          \<or> (\<exists>t. targetPrice = Some t \<and> js_le t currentPrice)
          \<or> js_le (js_sub currentPrice stopLoss) (Fin 0))
       \<and> (calcRR currentPrice stopLoss targetPrice \<noteq> None \<longrightarrow>
            (\<exists>t. targetPrice = Some t
               \<and> calcRR currentPrice stopLoss targetPrice
                   = Some (js_div (js_sub t currentPrice) (js_sub currentPrice stopLoss))))
       \<and> calcRR (Fin 100) (Fin 95) (Some (Fin 115)) = Some (Fin 3)
       \<and> calcRR (Fin 100) (Fin 95) (Some (Fin 90)) = None"
proof -
  have ex: "calcRR (Fin 100) (Fin 95) (Some (Fin 115)) = Some (Fin 3)
       \<and> calcRR (Fin 100) (Fin 95) (Some (Fin 90)) = None"
    by code_simp
  have f: "falsy t \<Longrightarrow> t = NaN \<or> js_le t currentPrice" for t
    using falsy_le_positive [OF _ _ assms] by blast
  have nan: "falsy NaN"
    by (simp add: falsy_def)
  have iff: "calcRR currentPrice stopLoss targetPrice = None \<longleftrightarrow>
            targetPrice = None \<or> targetPrice = Some NaN
          \<or> (\<exists>t. targetPrice = Some t \<and> js_le t currentPrice)
          \<or> js_le (js_sub currentPrice stopLoss) (Fin 0)"
    using f nan by (cases targetPrice) (auto simp add: calcRR_def Let_def)
  have val: "calcRR currentPrice stopLoss targetPrice \<noteq> None \<longrightarrow>
            (\<exists>t. targetPrice = Some t
               \<and> calcRR currentPrice stopLoss targetPrice
                   = Some (js_div (js_sub t currentPrice) (js_sub currentPrice stopLoss)))"
    by (cases targetPrice) (auto simp add: calcRR_def Let_def split: if_splits)
  from iff val ex show ?thesis by blast
qed

theorem calcRR_null_cases_witness:
  "js_lt (Fin 0) (Fin 100)
   \<and> calcRR (Fin 100) (Fin 95) (Some (Fin 115))
        = Some (js_div (js_sub (Fin 115) (Fin 100)) (js_sub (Fin 100) (Fin 95)))
   \<and> calcRR (Fin 100) (Fin 95) (Some (Fin 115)) = Some (Fin 3)
   \<and> calcRR (Fin 100) (Fin 95) None = None
   \<and> calcRR (Fin 100) (Fin 95) (Some NaN) = None"
proof -
  have pos: "js_lt (Fin 0) (Fin 100)"
    by simp
  from calcRR_null_cases [OF pos, of "Fin 95" "Some (Fin 115)"]
       calcRR_null_cases [OF pos, of "Fin 95" None]
       calcRR_null_cases [OF pos, of "Fin 95" "Some NaN"] pos
  show ?thesis
    by auto
qed

subsection \<open>Position size\<close>

text \<open>
  Claim C7: short-horizon position sizing is antitone in the risk. For a fixed score, focus
  and sentiment and two pairs of current price and stop whose risk percentages
  \<open>(currentPrice - stopLoss) / currentPrice * 100\<close>, as the engine computes them, satisfy
  \<open>riskPercent1 <= riskPercent2\<close>, the size for the second pair is not larger than the size
  for the first, in the order pass, small, medium, large.
\<close>

theorem calcPositionSize_antitone:
  assumes "js_le (riskPercent currentPrice1 stopLoss1) (riskPercent currentPrice2 stopLoss2)"
  shows "size_rank (size_class (calcPositionSize score' currentPrice2 stopLoss2 focus sentiment))
       \<le> size_rank (size_class (calcPositionSize score' currentPrice1 stopLoss1 focus sentiment))"
proof -
  have mono: "js_le (riskPercent currentPrice1 stopLoss1) c" if "js_le (riskPercent currentPrice2 stopLoss2) c" for c
    using assms that by (rule js_le_trans)
  show ?thesis
    using mono [of "Fin 2"] mono [of "Fin 3"] mono [of "Fin 5"]
    by (auto simp add: calcPositionSize_def Let_def)
qed

theorem calcPositionSize_antitone_witness:
  "js_le (riskPercent (Fin 100) (Fin 99)) (riskPercent (Fin 100) (Fin 97))
   \<and> size_class (calcPositionSize (Fin 4) (Fin 100) (Fin 99) (Fin 4) ''good'') = Large
   \<and> size_class (calcPositionSize (Fin 4) (Fin 100) (Fin 97) (Fin 4) ''good'') = Medium
   \<and> size_rank (size_class (calcPositionSize (Fin 4) (Fin 100) (Fin 97) (Fin 4) ''good''))
       \<le> size_rank (size_class (calcPositionSize (Fin 4) (Fin 100) (Fin 99) (Fin 4) ''good''))"
proof -
  have risk: "js_le (riskPercent (Fin 100) (Fin 99)) (riskPercent (Fin 100) (Fin 97))"
    by code_simp
  have sizes: "size_class (calcPositionSize (Fin 4) (Fin 100) (Fin 99) (Fin 4) ''good'') = Large
             \<and> size_class (calcPositionSize (Fin 4) (Fin 100) (Fin 97) (Fin 4) ''good'') = Medium"
    by code_simp
  from calcPositionSize_antitone [OF risk, of "Fin 4" "Fin 4" "''good''"] risk sizes
  show ?thesis by blast
qed

text \<open>
  Claim C10: whenever \<open>calcPositionSize\<close> returns the size \<open>large\<close>, \<open>calcEntrySignal\<close> for
  the same focus and sentiment, with the total score equal to that score, returns the
  signal \<open>ok\<close>: a large position never comes with a \<open>watch\<close> or \<open>ng\<close> signal.
\<close>

theorem large_size_implies_ok_signal:
  assumes "size_class (calcPositionSize score' currentPrice stopLoss focus sentiment) = Large"
  shows "signal (calcEntrySignal score' focus sentiment) = Ok"
proof -
  from assms have c: "js_ge score' (Fin 4) \<and> js_ge focus (Fin 4) \<and> sentiment = ''good''"
    by (simp add: calcPositionSize_def Let_def split: if_splits)
  then have "js_le (Fin 3) score'"
    unfolding js_ge_def using js_le_trans [of "Fin 3" "Fin 4" score'] by simp
  moreover from c have "\<not> js_le focus (Fin 2)"
    unfolding js_ge_def using js_le_trans [of "Fin 4" focus "Fin 2"] by auto
  ultimately show ?thesis
    using c by (simp add: calcEntrySignal_def js_ge_def)
qed

theorem large_size_implies_ok_signal_witness:
  "size_class (calcPositionSize (Fin 4) (Fin 100) (Fin 99) (Fin 4) ''good'') = Large
   \<and> signal (calcEntrySignal (Fin 4) (Fin 4) ''good'') = Ok"
proof -
  have large: "size_class (calcPositionSize (Fin 4) (Fin 100) (Fin 99) (Fin 4) ''good'') = Large"
    by code_simp
  from large large_size_implies_ok_signal [OF large] show ?thesis
    by simp
qed

section \<open>Properties of the aggregated error\<close>

subsection \<open>Distinct messages and the first match\<close>

lemma find_append_first:
  "find P (xs @ ys) = (case find P xs of Some x \<Rightarrow> Some x | None \<Rightarrow> find P ys)"
  by (induction xs) simp_all

lemma find_foldl_add:
  "find P (foldl (\<lambda>acc x. if x \<in> set acc then acc else acc @ [x]) acc xs)
     = (case find P acc of Some y \<Rightarrow> Some y | None \<Rightarrow> find P xs)"
proof (induction xs arbitrary: acc)
  case Nil
  then show ?case by (simp split: option.splits)
next
  case (Cons x xs)
  show ?case
  proof (cases "x \<in> set acc")
    case True
    then have "find P acc = None \<Longrightarrow> \<not> P x"
      by (auto simp: find_None_iff)
    with True Cons.IH [of acc] show ?thesis
      by (simp split: option.splits)
  next
    case False
    with Cons.IH [of "acc @ [x]"] show ?thesis
      by (simp add: find_append_first split: option.splits)
  qed
qed

lemma find_new_Set: "find P (new_Set xs) = find P xs"
  by (simp add: new_Set_def find_foldl_add)

lemma foldl_add_prefix:
  "\<exists>zs. foldl (\<lambda>acc x. if x \<in> set acc then acc else acc @ [x]) acc xs = acc @ zs"
proof (induction xs arbitrary: acc)
  case Nil
  then show ?case by simp
next
  case (Cons x xs)
  show ?case
  proof (cases "x \<in> set acc")
    case True
    with Cons.IH [of acc] show ?thesis by simp
  next
    case False
    from Cons.IH [of "acc @ [x]"] obtain zs where
      "foldl (\<lambda>acc x. if x \<in> set acc then acc else acc @ [x]) (acc @ [x]) xs = (acc @ [x]) @ zs"
      by blast
    with False show ?thesis by simp
  qed
qed

lemma index0_new_Set: "index0 (new_Set (x # xs)) = Some x"
proof -
  from foldl_add_prefix [of "[x]" xs] obtain zs where
    "foldl (\<lambda>acc x. if x \<in> set acc then acc else acc @ [x]) [x] xs = [x] @ zs"
    by blast
  then show ?thesis by (simp add: new_Set_def index0_def)
qed

lemma find_first_match:
  assumes "P m" and "\<forall>p\<in>set pre. \<not> P p"
  shows "find P (pre @ m # post) = Some m"
  using assms by (induction pre) simp_all

lemma startsWith_nonempty: "startsWith m (c # p) \<Longrightarrow> m \<noteq> []"
  by (cases m) simp_all

lemma isApiError_nonempty: "isApiError m \<Longrightarrow> m \<noteq> []"
  by (auto simp: isApiError_def ascii_def dest: startsWith_nonempty)

lemma isGeneric_nonempty: "isGeneric m \<Longrightarrow> m \<noteq> []"
  by (auto simp: isGeneric_def generic_marker_def)

lemma aggregate_message_best:
  "aggregate_message errors =
     (case best_message (new_Set errors) of
        Some m \<Rightarrow> if m \<noteq> [] then m else default_message
      | None \<Rightarrow> default_message)"
  by (simp add: aggregate_message_def Let_def or_else_def truthy_def default_message_def split: option.splits)

subsection \<open>The first unmarked and unprefixed message\<close>

lemma step1_error_all_rejected:
  "all_rejected (attempts tdKey avKey td av (fetchFromProxy inner)) = Some errors \<Longrightarrow>
   step1_error tdKey avKey td av inner = Some (aggregate_message errors)"
  by (simp add: step1_error_def)

lemmas msg_defs = msg_HTTP_500_def msg_TD_not_found_def msg_TD_rate_limited_def
  msg_AV_rate_limited_def msg_proxy_failed_def ascii_def

lemma http_class:
  "\<not> isGeneric msg_HTTP_500 \<and> \<not> isApiError msg_HTTP_500 \<and> msg_HTTP_500 \<noteq> []"
  by (simp add: isGeneric_def isApiError_def generic_marker_def msg_defs)

lemma proxy_class:
  "\<not> isGeneric msg_proxy_failed \<and> \<not> isApiError msg_proxy_failed \<and> msg_proxy_failed \<noteq> []"
  by (simp add: isGeneric_def isApiError_def generic_marker_def msg_defs)

lemma td_not_found_class:
  "\<not> isGeneric (msg_TD_not_found (ascii ''7203:TSE''))
   \<and> \<not> isApiError (msg_TD_not_found (ascii ''7203:TSE''))
   \<and> msg_TD_not_found (ascii ''7203:TSE'') \<noteq> []"
  by (simp add: isGeneric_def isApiError_def generic_marker_def msg_defs)

lemma rate_limited_class:
  "\<not> isGeneric msg_AV_rate_limited \<and> isApiError msg_AV_rate_limited
   \<and> \<not> isGeneric msg_TD_rate_limited \<and> isApiError msg_TD_rate_limited"
  by (simp add: isGeneric_def isApiError_def generic_marker_def msg_defs)

lemma empty_class: "\<not> isGeneric [] \<and> \<not> isApiError []"
  by (simp add: isGeneric_def isApiError_def generic_marker_def ascii_def)

lemma default_class: "isGeneric default_message"
  by (simp add: isGeneric_def generic_marker_def default_message_def)

lemma all_rejected_set:
  "all_rejected xs = Some errors \<Longrightarrow> Inl m \<in> set xs \<Longrightarrow> m \<in> set errors"
proof (induction xs arbitrary: errors)
  case Nil
  then show ?case by simp
next
  case (Cons x xs)
  then show ?case
    by (cases x) auto
qed

lemma all_rejected_Cons:
  "all_rejected (Inl m # xs) = Some errors \<Longrightarrow> \<exists>ms. errors = m # ms"
  by auto

lemma proxy_attempt_last: "proxy \<in> set (attempts tdKey avKey td av proxy)"
  by (simp add: attempts_def Let_def)

lemma proxy_message_present:
  assumes "all_rejected (attempts tdKey avKey td av (fetchFromProxy inner)) = Some errors"
  shows "msg_proxy_failed \<in> set errors"
proof (cases inner)
  case None
  then have "Inl msg_proxy_failed \<in> set (attempts tdKey avKey td av (fetchFromProxy inner))"
    using proxy_attempt_last [of "fetchFromProxy inner"] by (simp add: fetchFromProxy_def)
  with assms show ?thesis
    by (rule all_rejected_set)
next
  case (Some v)
  have "all_rejected xs = None" if "Inr v \<in> set xs" for xs :: "(js_string + 'a) list"
    using that
  proof (induction xs)
    case Nil
    then show ?case by simp
  next
    case (Cons x xs)
    then show ?case by (cases x) auto
  qed
  moreover have "Inr v \<in> set (attempts tdKey avKey td av (fetchFromProxy inner))"
    using Some proxy_attempt_last [of "fetchFromProxy inner"] by (simp add: fetchFromProxy_def)
  ultimately show ?thesis
    using assms by simp
qed

lemma find_append_None:
  "\<forall>p\<in>set pre. \<not> P p \<Longrightarrow> find P (pre @ ys) = find P ys"
  by (induction pre) simp_all

lemma aggregate_first_specific:
  assumes "errors = pre @ m # post" and "\<not> isGeneric m" and "\<not> isApiError m"
    and "\<forall>p\<in>set pre. isGeneric p \<or> isApiError p"
  shows "(m \<noteq> [] \<longrightarrow> aggregate_message errors = m)
       \<and> (m = [] \<longrightarrow> aggregate_message errors =
            (case find (\<lambda>p. \<not> isGeneric p) pre of
               Some p \<Rightarrow> p
             | None \<Rightarrow> (case pre of [] \<Rightarrow> default_message | p0 # _ \<Rightarrow> p0)))"
proof -
  have f1: "find (\<lambda>m. \<not> isGeneric m \<and> \<not> isApiError m) (new_Set errors) = Some m"
    unfolding find_new_Set assms(1) using assms(2-4) by (intro find_first_match) auto
  have nonempty: "m \<noteq> [] \<longrightarrow> aggregate_message errors = m"
    using f1 by (simp add: aggregate_message_best best_message_def or_else_def truthy_def)
  have empty: "aggregate_message errors =
            (case find (\<lambda>p. \<not> isGeneric p) pre of
               Some p \<Rightarrow> p
             | None \<Rightarrow> (case pre of [] \<Rightarrow> default_message | p0 # _ \<Rightarrow> p0))" if m: "m = []"
  proof (cases "find (\<lambda>p. \<not> isGeneric p) pre")
    case (Some p)
    then have pin: "p \<in> set pre" and pg: "\<not> isGeneric p"
      by (auto simp: find_Some_iff)
    with assms(4) have "isApiError p"
      by blast
    then have pne: "p \<noteq> []"
      by (rule isApiError_nonempty)
    have f2: "find (\<lambda>m. \<not> isGeneric m) (new_Set errors) = Some p"
      unfolding find_new_Set assms(1) using Some by (simp add: find_append_first)
    from f1 f2 pne m Some show ?thesis
      by (simp add: aggregate_message_best best_message_def or_else_def truthy_def)
  next
    case None
    then have allg: "\<forall>p\<in>set pre. isGeneric p"
      by (auto simp: find_None_iff)
    have f2: "find (\<lambda>m. \<not> isGeneric m) (new_Set errors) = Some []"
      unfolding find_new_Set assms(1) using None assms(2) m by (simp add: find_append_first)
    show ?thesis
    proof (cases pre)
      case Nil
      then have "index0 (new_Set errors) = Some []"
        using assms(1) m by (simp add: index0_new_Set)
      with f1 f2 m None Nil show ?thesis
        by (simp add: aggregate_message_best best_message_def or_else_def truthy_def)
    next
      case (Cons p0 ps)
      then have i0: "index0 (new_Set errors) = Some p0"
        using assms(1) by (simp add: index0_new_Set)
      from Cons allg have "isGeneric p0"
        by simp
      then have "p0 \<noteq> []"
        by (rule isGeneric_nonempty)
      with f1 f2 i0 m None Cons show ?thesis
        by (simp add: aggregate_message_best best_message_def or_else_def truthy_def)
    qed
  qed
  from nonempty empty show ?thesis
    by blast
qed

text \<open>
  The symbol-not-found message of Twelve Data is not empty and has no prefix; it carries
  the marker only when the symbol does.
\<close>

lemma startsWith_snoc:
  "startsWith (m @ [c]) s \<Longrightarrow> c \<notin> set s \<Longrightarrow> startsWith m s"
proof (induction m s rule: startsWith.induct)
  case (1 m)
  then show ?case by simp
next
  case (2 c' p)
  then show ?case by (cases p) auto
next
  case (3 d m c' p)
  then show ?case by simp
qed

lemma includes_str_snoc:
  "includes_str (m @ [c]) s \<Longrightarrow> c \<notin> set s \<Longrightarrow> s \<noteq> [] \<Longrightarrow> includes_str m s"
proof (induction m)
  case Nil
  then show ?case by (cases s) auto
next
  case (Cons d m)
  from Cons.prems(1) have "startsWith ((d # m) @ [c]) s \<or> includes_str (m @ [c]) s"
    by simp
  then show ?case
  proof
    assume "startsWith ((d # m) @ [c]) s"
    then have "startsWith (d # m) s"
      using Cons.prems(2) by (rule startsWith_snoc)
    then show ?thesis by simp
  next
    assume "includes_str (m @ [c]) s"
    then have "includes_str m s"
      using Cons.prems(2,3) by (rule Cons.IH)
    then show ?thesis by simp
  qed
qed

lemma includes_str_Cons_other:
  "includes_str (d # m) s \<Longrightarrow> d \<notin> set s \<Longrightarrow> s \<noteq> [] \<Longrightarrow> includes_str m s"
  by (cases s) auto

lemma msg_TD_not_found_class:
  assumes "\<not> includes_str symbol generic_marker"
  shows "\<not> isGeneric (msg_TD_not_found symbol) \<and> \<not> isApiError (msg_TD_not_found symbol)
       \<and> msg_TD_not_found symbol \<noteq> []"
proof -
  have "\<not> isGeneric (msg_TD_not_found symbol)"
  proof
    assume "isGeneric (msg_TD_not_found symbol)"
    then have "includes_str (symbol @ [0xFF09]) generic_marker"
      unfolding isGeneric_def msg_TD_not_found_def
      by (auto simp: generic_marker_def dest!: includes_str_Cons_other)
    then have "includes_str symbol generic_marker"
      by (rule includes_str_snoc) (simp_all add: generic_marker_def)
    with assms show False by simp
  qed
  moreover have "\<not> isApiError (msg_TD_not_found symbol)"
    by (simp add: isApiError_def msg_TD_not_found_def ascii_def)
  moreover have "msg_TD_not_found symbol \<noteq> []"
    by (simp add: msg_TD_not_found_def)
  ultimately show ?thesis by blast
qed
subsection \<open>Which message is surfaced\<close>

text \<open>
  Claim C8, as the code has it. When every attempt of step 1 is rejected,
  \<open>fetchStockData\<close> throws one error. Its message is chosen from the attempt messages in
  the order of the attempts: Twelve Data and Alpha Vantage when their keys are set, then
  the proxy path, whose one message carries neither the generic marker nor a prefix. So
  there is a first attempt message \<open>m\<close> that neither carries the marker nor starts with
  \<open>[AV]\<close> or \<open>[TD]\<close>. When \<open>m\<close> is not empty it is the message thrown: an unmarked and
  unprefixed message of an earlier attempt (symbol not found from Twelve Data, an HTTP
  status) goes before the message of the proxy path, and a prefixed message (a rate limit)
  is passed over. When \<open>m\<close> is empty, the message thrown is the first earlier message
  without the marker if there is one, else the first message if \<open>m\<close> is not the first,
  else the default text. In particular, a symbol-not-found failure of Twelve Data, for a
  symbol that does not itself contain the marker, is the message thrown whatever the other
  attempts report.
\<close>

theorem aggregate_message_selection:
  assumes "all_rejected (attempts tdKey avKey td av (fetchFromProxy inner)) = Some errors"
  shows "step1_error tdKey avKey td av inner = Some (aggregate_message errors)
       \<and> (\<exists>pre m post. errors = pre @ m # post \<and> \<not> isGeneric m \<and> \<not> isApiError m
            \<and> (\<forall>p\<in>set pre. isGeneric p \<or> isApiError p))
       \<and> (\<forall>pre m post. errors = pre @ m # post \<and> \<not> isGeneric m \<and> \<not> isApiError m
            \<and> (\<forall>p\<in>set pre. isGeneric p \<or> isApiError p) \<longrightarrow>
              (m \<noteq> [] \<longrightarrow> aggregate_message errors = m)
            \<and> (m = [] \<longrightarrow> aggregate_message errors =
                 (case find (\<lambda>p. \<not> isGeneric p) pre of
                    Some p \<Rightarrow> p
                  | None \<Rightarrow> (case pre of [] \<Rightarrow> default_message | p0 # _ \<Rightarrow> p0))))
       \<and> (\<forall>symbol. tdKey \<and> td = Inl (msg_TD_not_found symbol)
            \<and> \<not> includes_str symbol generic_marker \<longrightarrow>
              step1_error tdKey avKey td av inner = Some (msg_TD_not_found symbol))"
proof (intro conjI allI impI)
  show "step1_error tdKey avKey td av inner = Some (aggregate_message errors)"
    using assms by (rule step1_error_all_rejected)
next
  from proxy_message_present [OF assms] proxy_class
  have "\<exists>x\<in>set errors. \<not> isGeneric x \<and> \<not> isApiError x"
    by blast
  then obtain pre m post where "errors = pre @ m # post" and "\<not> isGeneric m \<and> \<not> isApiError m"
    and "\<forall>p\<in>set pre. \<not> (\<not> isGeneric p \<and> \<not> isApiError p)"
    using split_list_first_prop [of errors "\<lambda>x. \<not> isGeneric x \<and> \<not> isApiError x"] by blast
  then show "\<exists>pre m post. errors = pre @ m # post \<and> \<not> isGeneric m \<and> \<not> isApiError m
            \<and> (\<forall>p\<in>set pre. isGeneric p \<or> isApiError p)"
    by blast
next
  fix pre m post
  assume h: "errors = pre @ m # post \<and> \<not> isGeneric m \<and> \<not> isApiError m
            \<and> (\<forall>p\<in>set pre. isGeneric p \<or> isApiError p)"
  assume "m \<noteq> []"
  with aggregate_first_specific [of errors pre m post] h
  show "aggregate_message errors = m"
    by blast
next
  fix pre m post
  assume h: "errors = pre @ m # post \<and> \<not> isGeneric m \<and> \<not> isApiError m
            \<and> (\<forall>p\<in>set pre. isGeneric p \<or> isApiError p)"
  assume "m = []"
  with aggregate_first_specific [of errors pre m post] h
  show "aggregate_message errors =
                 (case find (\<lambda>p. \<not> isGeneric p) pre of
                    Some p \<Rightarrow> p
                  | None \<Rightarrow> (case pre of [] \<Rightarrow> default_message | p0 # _ \<Rightarrow> p0))"
    by blast
next
  fix symbol
  assume h: "tdKey \<and> td = Inl (msg_TD_not_found symbol)
            \<and> \<not> includes_str symbol generic_marker"
  then have "attempts tdKey avKey td av (fetchFromProxy inner)
             = Inl (msg_TD_not_found symbol) # attempts False avKey td av (fetchFromProxy inner)"
    by (simp add: attempts_def Let_def)
  with assms obtain ms where ms: "errors = [] @ msg_TD_not_found symbol # ms"
    using all_rejected_Cons [of "msg_TD_not_found symbol"] by fastforce
  from h msg_TD_not_found_class [of symbol]
  have cls: "\<not> isGeneric (msg_TD_not_found symbol)" "\<not> isApiError (msg_TD_not_found symbol)"
    "msg_TD_not_found symbol \<noteq> []"
    by simp_all
  from aggregate_first_specific [OF ms cls(1,2)] cls(3)
  have "aggregate_message errors = msg_TD_not_found symbol"
    by simp
  with step1_error_all_rejected [OF assms]
  show "step1_error tdKey avKey td av inner = Some (msg_TD_not_found symbol)"
    by simp
qed
text \<open>
  The theorem at six outcomes of Twelve Data, Alpha Vantage and the proxy path:
  symbol not found for \<open>7203:TSE\<close> goes before a rate limit and the proxy message; an HTTP
  status of the second attempt goes before them too; a rate limit alone gives way to the
  proxy message; an empty message after a rate limit surfaces the rate limit; an empty
  first message surfaces the default text; symbol not found for \<open>ZZZZ\<close> goes before an
  HTTP status of the second attempt.
\<close>

theorem aggregate_message_selection_witness:
  "step1_error True True (Inl (msg_TD_not_found (ascii ''7203:TSE''))) (Inl msg_AV_rate_limited)
       (None :: unit option) = Some (msg_TD_not_found (ascii ''7203:TSE''))
   \<and> step1_error True True (Inl msg_TD_rate_limited) (Inl msg_HTTP_500)
       (None :: unit option) = Some msg_HTTP_500
   \<and> step1_error False True (Inl []) (Inl msg_AV_rate_limited)
       (None :: unit option) = Some msg_proxy_failed
   \<and> step1_error True True (Inl msg_TD_rate_limited) (Inl [])
       (None :: unit option) = Some msg_TD_rate_limited
   \<and> step1_error True True (Inl []) (Inl msg_AV_rate_limited)
       (None :: unit option) = Some default_message
   \<and> step1_error True True (Inl (msg_TD_not_found (ascii ''ZZZZ''))) (Inl msg_HTTP_500)
       (None :: unit option) = Some (msg_TD_not_found (ascii ''ZZZZ''))"
proof -
  let ?nf = "msg_TD_not_found (ascii ''7203:TSE'')"
  have none: "\<forall>p\<in>set ([] :: js_string list). isGeneric p \<or> isApiError p"
    by simp
  have one_td: "\<forall>p\<in>set [msg_TD_rate_limited]. isGeneric p \<or> isApiError p"
    using rate_limited_class by simp
  have one_av: "\<forall>p\<in>set [msg_AV_rate_limited]. isGeneric p \<or> isApiError p"
    using rate_limited_class by simp
  have r1: "all_rejected (attempts True True (Inl ?nf) (Inl msg_AV_rate_limited)
              (fetchFromProxy (None :: unit option)))
            = Some ([] @ ?nf # [msg_AV_rate_limited, msg_proxy_failed])"
    by (simp add: attempts_def fetchFromProxy_def)
  have r2: "all_rejected (attempts True True (Inl msg_TD_rate_limited) (Inl msg_HTTP_500)
              (fetchFromProxy (None :: unit option)))
            = Some ([msg_TD_rate_limited] @ msg_HTTP_500 # [msg_proxy_failed])"
    by (simp add: attempts_def fetchFromProxy_def)
  have r3: "all_rejected (attempts False True (Inl []) (Inl msg_AV_rate_limited)
              (fetchFromProxy (None :: unit option)))
            = Some ([msg_AV_rate_limited] @ msg_proxy_failed # [])"
    by (simp add: attempts_def fetchFromProxy_def)
  have r4: "all_rejected (attempts True True (Inl msg_TD_rate_limited) (Inl [])
              (fetchFromProxy (None :: unit option)))
            = Some ([msg_TD_rate_limited] @ [] # [msg_proxy_failed])"
    by (simp add: attempts_def fetchFromProxy_def)
  have r5: "all_rejected (attempts True True (Inl []) (Inl msg_AV_rate_limited)
              (fetchFromProxy (None :: unit option)))
            = Some ([] @ [] # [msg_AV_rate_limited, msg_proxy_failed])"
    by (simp add: attempts_def fetchFromProxy_def)
  have w1: "step1_error True True (Inl ?nf) (Inl msg_AV_rate_limited) (None :: unit option)
            = Some ?nf"
    using aggregate_message_selection [OF r1] td_not_found_class none by metis
  have w2: "step1_error True True (Inl msg_TD_rate_limited) (Inl msg_HTTP_500)
              (None :: unit option) = Some msg_HTTP_500"
    using aggregate_message_selection [OF r2] http_class one_td by metis
  have w3: "step1_error False True (Inl []) (Inl msg_AV_rate_limited)
              (None :: unit option) = Some msg_proxy_failed"
    using aggregate_message_selection [OF r3] proxy_class one_av by metis
  have e4: "aggregate_message ([msg_TD_rate_limited] @ [] # [msg_proxy_failed])
            = (case find (\<lambda>p. \<not> isGeneric p) [msg_TD_rate_limited] of
                 Some p \<Rightarrow> p
               | None \<Rightarrow> (case [msg_TD_rate_limited] of [] \<Rightarrow> default_message | p0 # _ \<Rightarrow> p0))"
    using aggregate_message_selection [OF r4] empty_class one_td by metis
  have w4: "step1_error True True (Inl msg_TD_rate_limited) (Inl [])
              (None :: unit option) = Some msg_TD_rate_limited"
    using aggregate_message_selection [OF r4] e4 rate_limited_class by simp
  have e5: "aggregate_message ([] @ [] # [msg_AV_rate_limited, msg_proxy_failed])
            = (case find (\<lambda>p. \<not> isGeneric p) [] of
                 Some p \<Rightarrow> p
               | None \<Rightarrow> (case [] of [] \<Rightarrow> default_message | p0 # _ \<Rightarrow> p0))"
    using aggregate_message_selection [OF r5] empty_class none by metis
  have w5: "step1_error True True (Inl []) (Inl msg_AV_rate_limited)
              (None :: unit option) = Some default_message"
    using aggregate_message_selection [OF r5] e5 by simp
  have r6: "all_rejected (attempts True True (Inl (msg_TD_not_found (ascii ''ZZZZ'')))
              (Inl msg_HTTP_500) (fetchFromProxy (None :: unit option)))
            = Some [msg_TD_not_found (ascii ''ZZZZ''), msg_HTTP_500, msg_proxy_failed]"
    by (simp add: attempts_def fetchFromProxy_def)
  have sym: "\<not> includes_str (ascii ''ZZZZ'') generic_marker"
    by (simp add: ascii_def generic_marker_def)
  have w6: "step1_error True True (Inl (msg_TD_not_found (ascii ''ZZZZ''))) (Inl msg_HTTP_500)
              (None :: unit option) = Some (msg_TD_not_found (ascii ''ZZZZ''))"
    using aggregate_message_selection [OF r6] sym by blast
  from w1 w2 w3 w4 w5 w6 show ?thesis
    by blast
qed
text \<open>
  Claim C8, as the specification words it, fails: with Twelve Data answering HTTP 500 (a
  transport error), Alpha Vantage rate-limited (a provider-internal error, prefixed
  \<open>[AV]\<close>) and the proxy path failed, the priority order of the specification surfaces the
  rate-limit message, and the code surfaces \<open>HTTP 500\<close>: no message a fetcher throws carries
  the generic marker, so a transport message ranks with the specific ones.
\<close>

theorem step1_error_transport_over_rate_limit:
  "step1_error True True (Inl msg_HTTP_500) (Inl msg_AV_rate_limited)
       (None :: unit option) = Some msg_HTTP_500
   \<and> spec_surfaced [(Transport, msg_HTTP_500), (RateLimited, msg_AV_rate_limited),
                     (Transport, msg_proxy_failed)] = Some msg_AV_rate_limited
   \<and> msg_HTTP_500 \<noteq> msg_AV_rate_limited"
proof -
  have rej: "all_rejected (attempts True True (Inl msg_HTTP_500) (Inl msg_AV_rate_limited)
       (fetchFromProxy (None :: unit option)))
     = Some [msg_HTTP_500, msg_AV_rate_limited, msg_proxy_failed]"
    by (simp add: attempts_def fetchFromProxy_def)
  have f: "find (\<lambda>m. \<not> isGeneric m \<and> \<not> isApiError m)
             (new_Set [msg_HTTP_500, msg_AV_rate_limited, msg_proxy_failed]) = Some msg_HTTP_500"
    unfolding find_new_Set using http_class by simp
  have agg: "aggregate_message [msg_HTTP_500, msg_AV_rate_limited, msg_proxy_failed]
     = msg_HTTP_500"
    using f http_class
    by (simp add: aggregate_message_best best_message_def or_else_def truthy_def)
  have spec: "spec_surfaced [(Transport, msg_HTTP_500), (RateLimited, msg_AV_rate_limited),
                     (Transport, msg_proxy_failed)] = Some msg_AV_rate_limited"
    by (simp add: spec_surfaced_def)
  have ne: "msg_HTTP_500 \<noteq> msg_AV_rate_limited"
    by (simp add: msg_defs)
  from rej agg spec ne show ?thesis
    by (simp add: step1_error_def)
qed

end
